theory Spec2Isabelle
  imports Complex_Main "HOL-Library.Word"
begin

section \<open>Python values\<close>

text \<open>
  A Python \<open>float\<close> is an IEEE-754 binary64 value, kept as its bit pattern. Arithmetic,
  comparison and printing of floats are the Python runtime's and enter the model as
  fields of the environment record further down. \<open>Decimal s\<close> is the result of Python's
  \<open>Decimal(s)\<close> on the numeric string \<open>s\<close>.
\<close>

datatype pyfloat = Float64 (bits: "64 word")

datatype decimal = Decimal string

text \<open>
  The values a Python object can take here. A dict is the list of its items in insertion
  order (keys pairwise different), a set is the list of its elements.
\<close>

datatype pyval =
    PNone
  | PBool bool
  | PInt int
  | PFloat pyfloat
  | PStr string
  | PDecimal decimal
  | PList "pyval list"
  | PTuple "pyval list"
  | PSet "pyval list"
  | PDict "(pyval \<times> pyval) list"

text \<open>An exception object: its class name and \<open>str(e)\<close>.\<close>

datatype pyexn = PyExn (exn_type: string) (exn_str: string)

section \<open>The Decimal bridge: \<open>float_to_decimal\<close>\<close>

text \<open>
  \<^verbatim>\<open>
  def float_to_decimal(obj):
      if isinstance(obj, float):
          return Decimal(str(obj))
      elif isinstance(obj, dict):
          return {k: float_to_decimal(v) for k, v in obj.items()}
      elif isinstance(obj, list):
          return [float_to_decimal(i) for i in obj]
      else:
          return obj
  \<close>
  The first argument is \<open>str\<close> on floats.
\<close>

fun float_to_decimal :: "(pyfloat \<Rightarrow> string) \<Rightarrow> pyval \<Rightarrow> pyval" where
  "float_to_decimal str (PFloat x) = PDecimal (Decimal (str x))"
| "float_to_decimal str (PDict kvs) = PDict (map (\<lambda>(k, v). (k, float_to_decimal str v)) kvs)"
| "float_to_decimal str (PList xs) = PList (map (float_to_decimal str) xs)"
| "float_to_decimal str obj = obj"

text \<open>No float occurs anywhere in the value: not as an element, a dict key or a dict value.\<close>

fun float_free :: "pyval \<Rightarrow> bool" where
  "float_free (PFloat x) = False"
| "float_free (PList xs) = list_all float_free xs"
| "float_free (PTuple xs) = list_all float_free xs"
| "float_free (PSet xs) = list_all float_free xs"
| "float_free (PDict kvs) = list_all (\<lambda>(k, v). float_free k \<and> float_free v) kvs"
| "float_free obj = True"

text \<open>
  Every float of the value is reached from the root through list elements and dict
  values only: the positions \<open>float_to_decimal\<close> descends into.
\<close>

fun floats_reachable :: "pyval \<Rightarrow> bool" where
  "floats_reachable (PFloat x) = True"
| "floats_reachable (PDict kvs) = list_all (\<lambda>(k, v). float_free k \<and> floats_reachable v) kvs"
| "floats_reachable (PList xs) = list_all floats_reachable xs"
| "floats_reachable obj = float_free obj"

text \<open>The types \<open>float_to_decimal\<close> hands back untouched.\<close>

fun other_type :: "pyval \<Rightarrow> bool" where
  "other_type (PFloat x) = False"
| "other_type (PDict kvs) = False"
| "other_type (PList xs) = False"
| "other_type obj = True"

section \<open>Strings, numbers and dates of the Python runtime\<close>

definition digit_char :: "nat \<Rightarrow> char" where
  "digit_char d = char_of (48 + d)"

function str_nat :: "nat \<Rightarrow> string" where
  "str_nat n = (if n < 10 then [digit_char n] else str_nat (n div 10) @ [digit_char (n mod 10)])"
  by pat_completeness auto
termination
  by (relation "measure id") auto

declare str_nat.simps [simp del]

text \<open>\<open>str(i)\<close> for an int.\<close>

definition str_int :: "int \<Rightarrow> string" where
  "str_int i = (if i < 0 then CHR ''-'' # str_nat (nat (- i)) else str_nat (nat i))"

text \<open>The format \<open>%0wd\<close> of a natural number: at least \<open>w\<close> digits, padded with zeros.\<close>

definition zpad :: "nat \<Rightarrow> nat \<Rightarrow> string" where
  "zpad w n = replicate (w - length (str_nat n)) (CHR ''0'') @ str_nat n"

text \<open>\<open>int(x)\<close> on a float: truncation towards zero.\<close>

definition py_int :: "real \<Rightarrow> int" where
  "py_int x = (if 0 \<le> x then \<lfloor>x\<rfloor> else \<lceil>x\<rceil>)"

text \<open>
  \<open>s.strip()\<close>: leading and trailing whitespace removed (the ASCII whitespace
  characters of \<open>str.isspace\<close>).
\<close>

definition is_space :: "char \<Rightarrow> bool" where
  "is_space c = ((of_char c :: nat) \<in> {9, 10, 11, 12, 13, 28, 29, 30, 31, 32})"

definition strip :: "string \<Rightarrow> string" where
  "strip s = rev (dropWhile is_space (rev (dropWhile is_space s)))"

record datetime =
  year :: nat
  month :: nat
  day :: nat
  hour :: nat
  minute :: nat
  second :: nat
  microsecond :: nat

text \<open>\<open>d.isoformat()\<close>: \<open>YYYY-MM-DDTHH:MM:SS\<close>, with \<open>.ffffff\<close> when the microsecond is not 0.\<close>

definition isoformat :: "datetime \<Rightarrow> string" where
  "isoformat d =
     zpad 4 (year d) @ ''-'' @ zpad 2 (month d) @ ''-'' @ zpad 2 (day d) @ ''T''
     @ zpad 2 (hour d) @ '':'' @ zpad 2 (minute d) @ '':'' @ zpad 2 (second d)
     @ (if microsecond d = 0 then [] else ''.'' @ zpad 6 (microsecond d))"

text \<open>\<open>d.strftime("%H:%M:%S")\<close>, \<open>d.strftime("%Y-%m-%d")\<close> and \<open>d.strftime("%Y-%m-%d %H:%M")\<close>.\<close>

definition strftime_HMS :: "datetime \<Rightarrow> string" where
  "strftime_HMS d = zpad 2 (hour d) @ '':'' @ zpad 2 (minute d) @ '':'' @ zpad 2 (second d)"

definition strftime_Ymd :: "datetime \<Rightarrow> string" where
  "strftime_Ymd d = zpad 4 (year d) @ ''-'' @ zpad 2 (month d) @ ''-'' @ zpad 2 (day d)"

definition strftime_Ymd_HM :: "datetime \<Rightarrow> string" where
  "strftime_Ymd_HM d = strftime_Ymd d @ '' '' @ zpad 2 (hour d) @ '':'' @ zpad 2 (minute d)"

text \<open>
  \<open>datetime.strptime(s, "%Y-%m-%d")\<close>. The format compiles to the regular expression
  \<open>(\d\d\d\d)-(1[0-2]|0[1-9]|[1-9])-(3[0-1]|[1-2]\d|0[1-9]|[1-9]| [1-9])\<close>, matched at the
  start of \<open>s\<close>; text left over after the match and a day the month does not have raise
  \<open>ValueError\<close>, here \<open>None\<close>.
\<close>

definition is_digit :: "char \<Rightarrow> bool" where
  "is_digit c = (48 \<le> (of_char c :: nat) \<and> (of_char c :: nat) \<le> 57)"

definition digit_val :: "char \<Rightarrow> nat" where
  "digit_val c = of_char c - 48"

fun match_month :: "string \<Rightarrow> (nat \<times> string) option" where
  "match_month (a # b # rest) =
     (if a = CHR ''1'' \<and> b \<in> set ''012'' then Some (10 + digit_val b, rest)
      else if a = CHR ''0'' \<and> b \<in> set ''123456789'' then Some (digit_val b, rest)
      else if a \<in> set ''123456789'' then Some (digit_val a, b # rest)
      else None)"
| "match_month [a] = (if a \<in> set ''123456789'' then Some (digit_val a, []) else None)"
| "match_month [] = None"

fun match_day :: "string \<Rightarrow> (nat \<times> string) option" where
  "match_day (a # b # rest) =
     (if a = CHR ''3'' \<and> b \<in> set ''01'' then Some (30 + digit_val b, rest)
      else if a \<in> set ''12'' \<and> is_digit b then Some (10 * digit_val a + digit_val b, rest)
      else if a = CHR ''0'' \<and> b \<in> set ''123456789'' then Some (digit_val b, rest)
      else if a \<in> set ''123456789'' then Some (digit_val a, b # rest)
      else if a = CHR '' '' \<and> b \<in> set ''123456789'' then Some (digit_val b, rest)
      else None)"
| "match_day [a] = (if a \<in> set ''123456789'' then Some (digit_val a, []) else None)"
| "match_day [] = None"

definition is_leap :: "nat \<Rightarrow> bool" where
  "is_leap y = (y mod 4 = 0 \<and> (y mod 100 \<noteq> 0 \<or> y mod 400 = 0))"

definition days_in_month :: "nat \<Rightarrow> nat \<Rightarrow> nat" where
  "days_in_month y m =
     (if m = 2 then (if is_leap y then 29 else 28)
      else if m \<in> {4, 6, 9, 11} then 30 else 31)"

fun strptime_Ymd :: "string \<Rightarrow> (nat \<times> nat \<times> nat) option" where
  "strptime_Ymd (y1 # y2 # y3 # y4 # sep1 # rest) =
     (if is_digit y1 \<and> is_digit y2 \<and> is_digit y3 \<and> is_digit y4 \<and> sep1 = CHR ''-'' then
        (case match_month rest of
           None \<Rightarrow> None
         | Some (m, rest1) \<Rightarrow>
             (case rest1 of
                [] \<Rightarrow> None
              | sep2 # rest2 \<Rightarrow>
                  if sep2 = CHR ''-'' then
                    (case match_day rest2 of
                       None \<Rightarrow> None
                     | Some (d, rest3) \<Rightarrow>
                         let y = 1000 * digit_val y1 + 100 * digit_val y2 + 10 * digit_val y3
                                 + digit_val y4
                         in if rest3 = [] \<and> 1 \<le> y \<and> d \<le> days_in_month y m
                            then Some (y, m, d) else None)
                  else None))
      else None)"
| "strptime_Ymd s = None"

section \<open>Table items\<close>

text \<open>
  An item of the table store, as the client library hands it over: a dict from attribute
  names to values. \<open>item_get it k d\<close> is \<open>it.get(k, d)\<close>, \<open>item_index it k\<close> is \<open>it[k]\<close>,
  which raises \<open>KeyError\<close> for a missing key.
\<close>

type_synonym item = "(string \<times> pyval) list"

definition item_get :: "item \<Rightarrow> string \<Rightarrow> pyval \<Rightarrow> pyval" where
  "item_get it k d = (case map_of it k of None \<Rightarrow> d | Some v \<Rightarrow> v)"

definition KeyError :: "string \<Rightarrow> pyexn" where
  "KeyError k = PyExn ''KeyError'' ([CHR 0x27] @ k @ [CHR 0x27])"

definition item_index :: "item \<Rightarrow> string \<Rightarrow> pyexn + pyval" where
  "item_index it k = (case map_of it k of None \<Rightarrow> Inl (KeyError k) | Some v \<Rightarrow> Inr v)"

text \<open>
  The truth value of an object (\<open>if x:\<close>). A float is false when it is \<open>0.0\<close> or \<open>-0.0\<close>, a
  Decimal when its coefficient has only zero digits.
\<close>

definition decimal_is_zero :: "decimal \<Rightarrow> bool" where
  "decimal_is_zero d =
     (case d of Decimal s \<Rightarrow>
        let m = filter is_digit (takeWhile (\<lambda>c. c \<noteq> CHR ''e'' \<and> c \<noteq> CHR ''E'') s)
        in m \<noteq> [] \<and> list_all (\<lambda>c. c = CHR ''0'') m)"

fun truthy :: "pyval \<Rightarrow> bool" where
  "truthy PNone = False"
| "truthy (PBool b) = b"
| "truthy (PInt i) = (i \<noteq> 0)"
| "truthy (PFloat x) = (bits x \<noteq> 0 \<and> bits x \<noteq> 0x8000000000000000)"
| "truthy (PStr s) = (s \<noteq> [])"
| "truthy (PDecimal d) = (\<not> decimal_is_zero d)"
| "truthy (PList xs) = (xs \<noteq> [])"
| "truthy (PTuple xs) = (xs \<noteq> [])"
| "truthy (PSet xs) = (xs \<noteq> [])"
| "truthy (PDict kvs) = (kvs \<noteq> [])"

section \<open>The cloud services, the operator and the application state\<close>

definition COLLECTION_ID :: string where
  "COLLECTION_ID = ''FaceAttendanceCollection''"

definition USERS_TABLE :: string where
  "USERS_TABLE = ''FaceAttendanceUsers''"

definition ATTENDANCE_TABLE :: string where
  "ATTENDANCE_TABLE = ''FaceAttendanceRecords''"

type_synonym bytes = string

text \<open>A camera frame or loaded picture: the pixel buffer of the array.\<close>

datatype image = Image bytes

text \<open>The arguments of \<open>dynamodb.create_table\<close>.\<close>

record table_spec =
  TableName :: string
  KeySchema :: "(string \<times> string) list"
  AttributeDefinitions :: "(string \<times> string) list"
  ReadCapacityUnits :: nat
  WriteCapacityUnits :: nat

text \<open>
  The arguments of \<open>Table.scan\<close>: none, or the filter \<open>begins_with(attribute, prefix)\<close>.
  (\<open>scan(Select='COUNT')\<close> is an operation of its own below.)
\<close>

datatype scan_filter = NoFilter | BeginsWith string string

text \<open>
  What the code reads of the face service's answers: of a detected face the brightness
  and sharpness of its \<open>Quality\<close> (missing ones are \<open>None\<close>), of an indexed face its
  \<open>FaceId\<close> and \<open>Confidence\<close>, of a match its \<open>Similarity\<close> and the face's
  \<open>ExternalImageId\<close>.
\<close>

record face_detail =
  Brightness :: "pyfloat option"
  Sharpness :: "pyfloat option"

record face_record =
  FaceId :: string
  Confidence :: pyfloat

record face_match =
  Similarity :: pyfloat
  match_ExternalImageId :: string

text \<open>The arguments of \<open>rekognition.index_faces\<close> and \<open>rekognition.search_faces_by_image\<close>.\<close>

record index_request =
  index_CollectionId :: string
  index_Image :: bytes
  ExternalImageId :: string
  DetectionAttributes :: "string list"
  QualityFilter :: string

record search_request =
  search_CollectionId :: string
  search_Image :: bytes
  MaxFaces :: int
  FaceMatchThreshold :: int

text \<open>
  Everything the application does to the outside, in the order it does it: what it
  prints, the dialogs it opens (with the operator's answer), the widgets it configures or
  creates, the timers it sets, the clock readings it takes and the calls it makes to the
  table store, the face service and the file system, each with the answer it got
  (\<open>Inl\<close> the exception raised).
\<close>

datatype event =
    Print string
  | PrintExc pyexn
  | ShowError string string
  | ShowInfo string string
  | AskYesNo string string bool
  | AskSaveAsFilename string string
  | Config string "(string \<times> string) list"
  | DestroyChildren string
  | Destroy string
  | NewFrame string string
  | NewLabel string string
  | NewButton string string string
  | Update
  | After nat string
  | DatetimeNow datetime
  | TablesAll "pyexn + string list"
  | CreateTable table_spec "pyexn + unit"
  | WaitTableExists string "pyexn + unit"
  | ListCollections "pyexn + string list"
  | CreateCollection string "pyexn + unit"
  | GetItem string string "pyexn + item option"
  | PutItem string item "pyexn + unit"
  | Scan string scan_filter "pyexn + item list"
  | ScanCount string "pyexn + int"
  | DetectFaces bytes "string list" "pyexn + face_detail list"
  | IndexFaces index_request "pyexn + face_record list"
  | SearchFacesByImage search_request "pyexn + face_match list"
  | WriteFile string string "pyexn + unit"

text \<open>
  The environment. Its first part is the Python runtime and libraries: printing,
  converting and comparing floats, \<open>str\<close> of values that are not strings, \<open>list.sort\<close>,
  \<open>datetime.fromisoformat\<close> (\<open>None\<close> when it raises), \<open>json.dumps\<close> of a service answer,
  the float \<open>(a / b) * 100\<close>, and \<open>cv2.imencode('.jpg', image)\<close> followed by \<open>tobytes()\<close>.
  Its second part is the outside world: the clock, the operator answering dialogs, the
  file system, the table store and the face service. Each answers as an arbitrary
  function of the moment (the number of events so far) and of the request, so nothing
  is assumed about how the services behave: the same request may be answered
  differently at different moments.
\<close>

record env =
  str_float :: "pyfloat \<Rightarrow> string"
  float_of_decimal :: "decimal \<Rightarrow> pyfloat"
  float_of_int :: "int \<Rightarrow> pyfloat"
  format_float :: "nat \<Rightarrow> pyfloat \<Rightarrow> string"
  float_lt :: "pyfloat \<Rightarrow> int \<Rightarrow> bool"
  float_ge :: "pyfloat \<Rightarrow> int \<Rightarrow> bool"
  str_other :: "pyval \<Rightarrow> string"
  list_sort :: "pyval list \<Rightarrow> pyexn + pyval list"
  fromisoformat :: "string \<Rightarrow> datetime option"
  json_dumps_index :: "face_record list \<Rightarrow> string"
  json_dumps_search :: "face_match list \<Rightarrow> string"
  percent :: "int \<Rightarrow> int \<Rightarrow> pyfloat"
  cv2_imencode :: "image \<Rightarrow> pyexn + bytes"
  datetime_now :: "nat \<Rightarrow> datetime"
  messagebox_askyesno :: "nat \<Rightarrow> string \<Rightarrow> string \<Rightarrow> bool"
  filedialog_asksaveasfilename :: "nat \<Rightarrow> string \<Rightarrow> string"
  file_write :: "nat \<Rightarrow> string \<Rightarrow> string \<Rightarrow> pyexn + unit"
  dynamodb_tables_all :: "nat \<Rightarrow> pyexn + string list"
  dynamodb_create_table :: "nat \<Rightarrow> table_spec \<Rightarrow> pyexn + unit"
  dynamodb_wait_table_exists :: "nat \<Rightarrow> string \<Rightarrow> pyexn + unit"
  dynamodb_get_item :: "nat \<Rightarrow> string \<Rightarrow> string \<Rightarrow> pyexn + item option"
  dynamodb_put_item :: "nat \<Rightarrow> string \<Rightarrow> item \<Rightarrow> pyexn + unit"
  dynamodb_scan :: "nat \<Rightarrow> string \<Rightarrow> scan_filter \<Rightarrow> pyexn + item list"
  dynamodb_scan_count :: "nat \<Rightarrow> string \<Rightarrow> pyexn + int"
  rekognition_list_collections :: "nat \<Rightarrow> pyexn + string list"
  rekognition_create_collection :: "nat \<Rightarrow> string \<Rightarrow> pyexn + unit"
  rekognition_detect_faces :: "nat \<Rightarrow> bytes \<Rightarrow> string list \<Rightarrow> pyexn + face_detail list"
  rekognition_index_faces :: "nat \<Rightarrow> index_request \<Rightarrow> pyexn + face_record list"
  rekognition_search_faces_by_image :: "nat \<Rightarrow> search_request \<Rightarrow> pyexn + face_match list"

text \<open>A \<open>ttk.Scale\<close>: its bounds and its current value.\<close>

record scale =
  scale_from :: real
  scale_to :: real
  scale_value :: real

type_synonym row = "pyval list"

text \<open>
  The application object \<open>self\<close>: the debug toggle, the contents of the entry fields,
  the captured images, the two sliders, the selection box of the verification tab, the
  date field of the reports tab and the rows of the two table views.
\<close>

record app =
  debug_mode_var :: bool
  register_user_id :: string
  register_name :: string
  register_email :: string
  register_department :: string
  register_captured_image :: "image option"
  quality_threshold_scale :: scale
  match_threshold_scale :: scale
  attendance_captured_image :: "image option"
  verify_captured_image :: "image option"
  verify_user_id :: string
  verify_user_id_values :: "pyval list"
  report_date_var :: string
  users_table :: "row list"
  attendance_table :: "row list"

subsection \<open>Actions\<close>

text \<open>
  An action is run at a moment (the number of events before it) and gives its result and
  the events it adds. \<open>bind\<close> runs one action after another, the second at the moment the
  first has ended, and \<open>seq\<close> does the same for a first action without a result.
\<close>

type_synonym 'a io = "nat \<Rightarrow> 'a \<times> event list"

definition result_of :: "'a io \<Rightarrow> nat \<Rightarrow> 'a" where
  "result_of m n = fst (m n)"

definition trace_of :: "'a io \<Rightarrow> nat \<Rightarrow> event list" where
  "trace_of m n = snd (m n)"

definition ret :: "'a \<Rightarrow> 'a io" where
  "ret x n = (x, [])"

definition bind :: "'a io \<Rightarrow> ('a \<Rightarrow> 'b io) \<Rightarrow> 'b io" where
  "bind m f n = (case m n of (x, t) \<Rightarrow> (case f x (n + length t) of (y, t') \<Rightarrow> (y, t @ t')))"

definition seq :: "unit io \<Rightarrow> 'b io \<Rightarrow> 'b io" where
  "seq m k = bind m (\<lambda>u. k)"

definition emit :: "event \<Rightarrow> unit io" where
  "emit e n = ((), [e])"

text \<open>\<open>if self.debug_mode_var.get(): print(msg)\<close>\<close>

definition debug_print :: "app \<Rightarrow> string \<Rightarrow> unit io" where
  "debug_print self msg = (if debug_mode_var self then emit (Print msg) else ret ())"

text \<open>\<open>if self.debug_mode_var.get(): print(msg); traceback.print_exc()\<close>\<close>

definition debug_print_exc :: "app \<Rightarrow> string \<Rightarrow> pyexn \<Rightarrow> unit io" where
  "debug_print_exc self msg e =
     (if debug_mode_var self then seq (emit (Print msg)) (emit (PrintExc e)) else ret ())"

text \<open>\<open>widget.config(text=t)\<close> and \<open>widget.config(text=t, foreground=c)\<close>\<close>

definition config_text :: "string \<Rightarrow> string \<Rightarrow> unit io" where
  "config_text widget t = emit (Config widget [(''text'', t)])"

definition config_text_fg :: "string \<Rightarrow> string \<Rightarrow> string \<Rightarrow> unit io" where
  "config_text_fg widget t c = emit (Config widget [(''text'', t), (''foreground'', c)])"

definition now :: "env \<Rightarrow> datetime io" where
  "now env n = (let d = datetime_now env n in (d, [DatetimeNow d]))"

definition askyesno :: "env \<Rightarrow> string \<Rightarrow> string \<Rightarrow> bool io" where
  "askyesno env title msg n =
     (let a = messagebox_askyesno env n title msg in (a, [AskYesNo title msg a]))"

definition asksaveasfilename :: "env \<Rightarrow> string \<Rightarrow> string io" where
  "asksaveasfilename env initialfile n =
     (let a = filedialog_asksaveasfilename env n initialfile in (a, [AskSaveAsFilename initialfile a]))"

definition write_file :: "env \<Rightarrow> string \<Rightarrow> string \<Rightarrow> (pyexn + unit) io" where
  "write_file env path content n =
     (let r = file_write env n path content in (r, [WriteFile path content r]))"

definition tables_all :: "env \<Rightarrow> (pyexn + string list) io" where
  "tables_all env n = (let r = dynamodb_tables_all env n in (r, [TablesAll r]))"

definition create_table :: "env \<Rightarrow> table_spec \<Rightarrow> (pyexn + unit) io" where
  "create_table env spec n = (let r = dynamodb_create_table env n spec in (r, [CreateTable spec r]))"

definition wait_table_exists :: "env \<Rightarrow> string \<Rightarrow> (pyexn + unit) io" where
  "wait_table_exists env t n =
     (let r = dynamodb_wait_table_exists env n t in (r, [WaitTableExists t r]))"

definition list_collections :: "env \<Rightarrow> (pyexn + string list) io" where
  "list_collections env n = (let r = rekognition_list_collections env n in (r, [ListCollections r]))"

definition create_collection :: "env \<Rightarrow> string \<Rightarrow> (pyexn + unit) io" where
  "create_collection env c n =
     (let r = rekognition_create_collection env n c in (r, [CreateCollection c r]))"

definition get_item :: "env \<Rightarrow> string \<Rightarrow> string \<Rightarrow> (pyexn + item option) io" where
  "get_item env t key n = (let r = dynamodb_get_item env n t key in (r, [GetItem t key r]))"

definition put_item :: "env \<Rightarrow> string \<Rightarrow> item \<Rightarrow> (pyexn + unit) io" where
  "put_item env t it n = (let r = dynamodb_put_item env n t it in (r, [PutItem t it r]))"

definition scan :: "env \<Rightarrow> string \<Rightarrow> scan_filter \<Rightarrow> (pyexn + item list) io" where
  "scan env t f n = (let r = dynamodb_scan env n t f in (r, [Scan t f r]))"

definition scan_count :: "env \<Rightarrow> string \<Rightarrow> (pyexn + int) io" where
  "scan_count env t n = (let r = dynamodb_scan_count env n t in (r, [ScanCount t r]))"

definition detect_faces :: "env \<Rightarrow> bytes \<Rightarrow> string list \<Rightarrow> (pyexn + face_detail list) io" where
  "detect_faces env b attrs n =
     (let r = rekognition_detect_faces env n b attrs in (r, [DetectFaces b attrs r]))"

definition index_faces :: "env \<Rightarrow> index_request \<Rightarrow> (pyexn + face_record list) io" where
  "index_faces env req n = (let r = rekognition_index_faces env n req in (r, [IndexFaces req r]))"

definition search_faces_by_image :: "env \<Rightarrow> search_request \<Rightarrow> (pyexn + face_match list) io" where
  "search_faces_by_image env req n =
     (let r = rekognition_search_faces_by_image env n req in (r, [SearchFacesByImage req r]))"

section \<open>The handlers\<close>

subsection \<open>Values shown to the operator\<close>

text \<open>\<open>str(v)\<close>, as an f-string renders a value.\<close>

definition py_str :: "env \<Rightarrow> pyval \<Rightarrow> string" where
  "py_str env v = (case v of PStr s \<Rightarrow> s | _ \<Rightarrow> str_other env v)"

text \<open>
  \<^verbatim>\<open>
  if timestamp:
      try:
          date_obj = datetime.fromisoformat(timestamp)
          formatted_time = date_obj.strftime(fmt)
      except:
          formatted_time = timestamp
  else:
      formatted_time = ''
  \<close>
  \<open>fromisoformat\<close> raises on a value that is not a string, and the bare \<open>except\<close> keeps
  the raw value.
\<close>

definition format_time :: "env \<Rightarrow> (datetime \<Rightarrow> string) \<Rightarrow> pyval \<Rightarrow> pyval" where
  "format_time env fmt ts =
     (if truthy ts then
        (case ts of
           PStr s \<Rightarrow> (case fromisoformat env s of Some d \<Rightarrow> PStr (fmt d) | None \<Rightarrow> ts)
         | _ \<Rightarrow> ts)
      else PStr [])"

text \<open>
  \<^verbatim>\<open>
  brightness = quality.get('Brightness', 0)
  brightness = Decimal(str(brightness)) if isinstance(brightness, float) else brightness
  ... float(brightness) ...
  \<close>
\<close>

definition quality_float :: "env \<Rightarrow> pyfloat option \<Rightarrow> pyfloat" where
  "quality_float env q =
     (case q of
        None \<Rightarrow> float_of_int env 0
      | Some x \<Rightarrow> float_of_decimal env (Decimal (str_float env x)))"

text \<open>
  \<^verbatim>\<open>
  confidence = record.get('confidence', 0)
  if isinstance(confidence, Decimal):
      confidence_display = f"{float(confidence):.2f}%"
  else:
      confidence_display = f"{confidence:.2f}%"
  \<close>
  The format \<open>.2f\<close> is defined for numbers only: a string raises \<open>ValueError\<close>, and
  \<open>None\<close>, lists, tuples, sets and dicts raise \<open>TypeError\<close>.
\<close>

definition confidence_display :: "env \<Rightarrow> item \<Rightarrow> pyexn + string" where
  "confidence_display env record =
     (case item_get record ''confidence'' (PInt 0) of
        PDecimal d \<Rightarrow> Inr (format_float env 2 (float_of_decimal env d) @ ''%'')
      | PFloat x \<Rightarrow> Inr (format_float env 2 x @ ''%'')
      | PInt i \<Rightarrow> Inr (format_float env 2 (float_of_int env i) @ ''%'')
      | PBool b \<Rightarrow> Inr (format_float env 2 (float_of_int env (if b then 1 else 0)) @ ''%'')
      | PStr s \<Rightarrow> Inl (PyExn ''ValueError'' ''Unknown format code f for object of type str'')
      | _ \<Rightarrow> Inl (PyExn ''TypeError'' ''unsupported format string passed to __format__''))"

subsection \<open>\<open>detect_faces_in_image\<close>\<close>

definition detect_faces_in_image :: "env \<Rightarrow> app \<Rightarrow> image \<Rightarrow> face_detail list io" where
  "detect_faces_in_image env self img =
     (case cv2_imencode env img of
        Inl e \<Rightarrow> seq (debug_print_exc self (''Error detecting faces: '' @ exn_str e) e) (ret [])
      | Inr img_bytes \<Rightarrow>
          bind (detect_faces env img_bytes [''ALL'']) (\<lambda>response.
            case response of
              Inl e \<Rightarrow> seq (debug_print_exc self (''Error detecting faces: '' @ exn_str e) e) (ret [])
            | Inr face_details \<Rightarrow> ret face_details))"

subsection \<open>\<open>update_dashboard_stats\<close>\<close>

text \<open>\<open>item['user_id']\<close> of every item, in order; the first missing key raises.\<close>

fun item_user_ids :: "item list \<Rightarrow> pyexn + pyval list" where
  "item_user_ids [] = Inr []"
| "item_user_ids (it # its) =
     (case item_index it ''user_id'' of
        Inl e \<Rightarrow> Inl e
      | Inr v \<Rightarrow> (case item_user_ids its of Inl e \<Rightarrow> Inl e | Inr vs \<Rightarrow> Inr (v # vs)))"

text \<open>The body of the \<open>try\<close>; \<open>Some e\<close> when it raised \<open>e\<close>.\<close>

definition update_dashboard_stats_try :: "env \<Rightarrow> app \<Rightarrow> pyexn option io" where
  "update_dashboard_stats_try env self =
     bind (scan_count env USERS_TABLE) (\<lambda>count_response.
       case count_response of
         Inl e \<Rightarrow> ret (Some e)
       | Inr user_count \<Rightarrow>
           bind (now env) (\<lambda>d.
             let today = strftime_Ymd d in
             bind (scan env ATTENDANCE_TABLE (BeginsWith ''timestamp'' today)) (\<lambda>response.
               case response of
                 Inl e \<Rightarrow> ret (Some e)
               | Inr items \<Rightarrow>
                   (case item_user_ids items of
                      Inl e \<Rightarrow> ret (Some e)
                    | Inr present_users \<Rightarrow>
                        let present_count = int (length (remdups present_users));
                            absent_count = max 0 (user_count - present_count);
                            attendance_rate =
                              (if user_count > 0
                               then float_of_decimal env
                                      (Decimal (str_float env (percent env present_count user_count)))
                               else float_of_int env 0)
                        in seq (config_text ''stat_card:Total Users'' (str_int user_count))
                          (seq (config_text ''stat_card:Present Today'' (str_int present_count))
                          (seq (config_text ''stat_card:Absent Today'' (str_int absent_count))
                          (seq (config_text ''stat_card:Attendance Rate''
                                  (format_float env 1 attendance_rate @ ''%''))
                          (ret None))))))))"

definition update_dashboard_stats :: "env \<Rightarrow> app \<Rightarrow> unit io" where
  "update_dashboard_stats env self =
     bind (update_dashboard_stats_try env self) (\<lambda>raised.
       seq (case raised of
              None \<Rightarrow> ret ()
            | Some e \<Rightarrow> debug_print_exc self (''Error updating dashboard stats: '' @ exn_str e) e)
           (emit (After 60000 ''update_dashboard_stats'')))"

subsection \<open>\<open>load_verify_users\<close> and \<open>load_users\<close>\<close>

definition load_verify_users_try :: "env \<Rightarrow> app \<Rightarrow> (pyexn option \<times> app) io" where
  "load_verify_users_try env self =
     bind (scan env USERS_TABLE NoFilter) (\<lambda>response.
       case response of
         Inl e \<Rightarrow> ret (Some e, self)
       | Inr items \<Rightarrow>
           (case list_sort env (map (\<lambda>user. item_get user ''user_id'' (PStr [])) items) of
              Inl e \<Rightarrow> ret (Some e, self)
            | Inr user_ids \<Rightarrow>
                let self = self\<lparr>verify_user_id_values := user_ids\<rparr>
                in ret (None, if user_ids \<noteq> []
                              then self\<lparr>verify_user_id := py_str env (hd user_ids)\<rparr> else self)))"

definition load_verify_users :: "env \<Rightarrow> app \<Rightarrow> app io" where
  "load_verify_users env self =
     bind (load_verify_users_try env self) (\<lambda>(raised, self).
       case raised of
         None \<Rightarrow> ret self
       | Some e \<Rightarrow>
           seq (debug_print_exc self (''Error loading users for verification: '' @ exn_str e) e)
               (ret self))"

text \<open>The row \<open>load_users\<close> inserts for a user item.\<close>

definition user_row :: "env \<Rightarrow> item \<Rightarrow> row" where
  "user_row env user =
     [item_get user ''user_id'' (PStr []),
      item_get user ''name'' (PStr []),
      item_get user ''email'' (PStr []),
      item_get user ''department'' (PStr []),
      format_time env strftime_Ymd_HM (item_get user ''created_at'' (PStr []))]"

definition load_users_try :: "env \<Rightarrow> app \<Rightarrow> (pyexn option \<times> app) io" where
  "load_users_try env self =
     bind (scan env USERS_TABLE NoFilter) (\<lambda>response.
       case response of
         Inl e \<Rightarrow> ret (Some e, self)
       | Inr items \<Rightarrow>
           let self = self\<lparr>users_table := users_table self @ map (user_row env) items\<rparr>
           in bind (load_verify_users env self) (\<lambda>self. ret (None, self)))"

definition load_users :: "env \<Rightarrow> app \<Rightarrow> app io" where
  "load_users env self =
     (let self = self\<lparr>users_table := []\<rparr> in
      bind (load_users_try env self) (\<lambda>(raised, self).
        case raised of
          None \<Rightarrow> ret self
        | Some e \<Rightarrow>
            seq (emit (ShowError ''Error'' (''Failed to load users: '' @ exn_str e)))
           (seq (debug_print_exc self (''Error loading users: '' @ exn_str e) e)
                (ret self))))"

subsection \<open>\<open>register_user\<close>\<close>

definition reset_register_image :: "app \<Rightarrow> app io" where
  "reset_register_image self =
     (let self = self\<lparr>register_captured_image := None\<rparr> in
      seq (emit (Config ''register_camera_label'' [(''image'', [])]))
     (seq (emit (Config ''register_reset_btn'' [(''state'', ''disabled'')]))
     (seq (emit (Config ''register_btn'' [(''state'', ''disabled'')]))
     (seq (config_text ''register_status'' [])
     (seq (config_text ''face_detected_label'' [])
          (ret self))))))"

text \<open>
  \<^verbatim>\<open>
  if quality_threshold >= 90:   quality_filter = "HIGH"
  elif quality_threshold >= 70: quality_filter = "MEDIUM"
  elif quality_threshold >= 50: quality_filter = "LOW"
  else:                         quality_filter = "NONE"
  \<close>
\<close>

definition quality_filter_of :: "int \<Rightarrow> string" where
  "quality_filter_of quality_threshold =
     (if quality_threshold \<ge> 90 then ''HIGH''
      else if quality_threshold \<ge> 70 then ''MEDIUM''
      else if quality_threshold \<ge> 50 then ''LOW''
      else ''NONE'')"

definition low_quality_message :: "env \<Rightarrow> pyfloat \<Rightarrow> pyfloat \<Rightarrow> string" where
  "low_quality_message env brightness sharpness =
     ''The face image has low quality (Brightness: '' @ format_float env 1 brightness
     @ '', Sharpness: '' @ format_float env 1 sharpness @ '').'' @ [CHR 10]
     @ ''This may affect recognition accuracy. Continue anyway?''"

text \<open>
  The body of the \<open>try\<close> of \<open>register_user\<close>, from the face registration on: what runs
  once the user is new, the image has exactly one face and the operator has not declined.
  The result is the exception raised, if any, and \<open>self\<close>.
\<close>

definition register_user_index :: "env \<Rightarrow> app \<Rightarrow> string \<Rightarrow> string \<Rightarrow> string \<Rightarrow> string \<Rightarrow> bytes
    \<Rightarrow> int \<Rightarrow> (pyexn option \<times> app) io" where
  "register_user_index env self user_id name email department img_bytes quality_threshold =
     (let quality_filter = quality_filter_of quality_threshold in
      bind (index_faces env
              \<lparr>index_CollectionId = COLLECTION_ID, index_Image = img_bytes,
               ExternalImageId = user_id, DetectionAttributes = [''ALL''],
               QualityFilter = quality_filter\<rparr>) (\<lambda>rekognition_response.
        case rekognition_response of
          Inl e \<Rightarrow> ret (Some e, self)
        | Inr face_records \<Rightarrow>
            seq (debug_print self (''Rekognition response: '' @ json_dumps_index env face_records))
              (case face_records of
                 [] \<Rightarrow>
                   seq (config_text ''register_status''
                          ''No face detected or face quality too low. Please try again.'')
                  (seq (debug_print self ''No faces indexed by Rekognition'')
                       (ret (None, self)))
               | fr # rest \<Rightarrow>
                   let face_id = FaceId fr;
                       confidence_decimal = Decimal (str_float env (Confidence fr))
                   in seq (debug_print self
                             (''Face detected with confidence: ''
                              @ str_float env (float_of_decimal env confidence_decimal)
                              @ ''%, Face ID: '' @ face_id))
                     (bind (now env) (\<lambda>d.
                        let timestamp = isoformat d in
                        bind (put_item env USERS_TABLE
                                [(''user_id'', PStr user_id), (''name'', PStr name),
                                 (''email'', PStr email), (''department'', PStr department),
                                 (''face_id'', PStr face_id),
                                 (''confidence'', PDecimal confidence_decimal),
                                 (''created_at'', PStr timestamp)]) (\<lambda>put_response.
                          case put_response of
                            Inl e \<Rightarrow> ret (Some e, self)
                          | Inr u \<Rightarrow>
                              let self = self\<lparr>register_user_id := [], register_name := [],
                                                register_email := [], register_department := []\<rparr>
                              in bind (reset_register_image self) (\<lambda>self.
                                 seq (emit (ShowInfo ''Success''
                                              (''User '' @ name @ '' registered successfully!'')))
                                (bind (load_users env self) (\<lambda>self.
                                 seq (update_dashboard_stats env self)
                                     (ret (None, self)))))))))))"

text \<open>The body of the \<open>try\<close> of \<open>register_user\<close>.\<close>

definition register_user_try :: "env \<Rightarrow> app \<Rightarrow> string \<Rightarrow> string \<Rightarrow> string \<Rightarrow> string \<Rightarrow> image
    \<Rightarrow> (pyexn option \<times> app) io" where
  "register_user_try env self user_id name email department img =
     (case cv2_imencode env img of
        Inl e \<Rightarrow> ret (Some e, self)
      | Inr img_bytes \<Rightarrow>
          let quality_threshold = py_int (scale_value (quality_threshold_scale self)) in
          seq (debug_print self (''Sending image to AWS Rekognition (size: ''
                                 @ str_nat (length img_bytes) @ '' bytes)''))
         (seq (debug_print self (''Quality threshold: '' @ str_int quality_threshold @ ''%''))
         (bind (get_item env USERS_TABLE user_id) (\<lambda>response.
            case response of
              Inl e \<Rightarrow> ret (Some e, self)
            | Inr (Some existing) \<Rightarrow>
                seq (config_text ''register_status'' (''User ID '' @ user_id @ '' already exists''))
                    (ret (None, self))
            | Inr None \<Rightarrow>
                bind (detect_faces_in_image env self img) (\<lambda>face_details.
                  if face_details = [] then
                    seq (config_text ''register_status''
                           ''No face detected in the image. Please try again.'')
                   (seq (debug_print self ''No faces detected in the image'')
                        (ret (None, self)))
                  else if length face_details > 1 then
                    seq (config_text ''register_status''
                           ''Multiple faces detected. Please use an image with only one face.'')
                   (seq (debug_print self (''Multiple faces detected: ''
                                           @ str_nat (length face_details)))
                        (ret (None, self)))
                  else
                    let brightness = quality_float env (Brightness (hd face_details));
                        sharpness = quality_float env (Sharpness (hd face_details))
                    in if float_lt env brightness 30 \<or> float_lt env sharpness 30 then
                         bind (askyesno env ''Low Quality Face''
                                 (low_quality_message env brightness sharpness)) (\<lambda>answer.
                           if \<not> answer then ret (None, self)
                           else register_user_index env self user_id name email department
                                  img_bytes quality_threshold)
                       else register_user_index env self user_id name email department
                              img_bytes quality_threshold)))))"

definition register_user :: "env \<Rightarrow> app \<Rightarrow> app io" where
  "register_user env self =
     (let user_id = strip (register_user_id self);
          name = strip (register_name self);
          email = strip (register_email self);
          department = strip (register_department self)
      in if user_id = [] \<or> name = [] \<or> email = [] \<or> department = [] then
           seq (config_text ''register_status'' ''Please fill in all fields'') (ret self)
         else
           (case register_captured_image self of
              None \<Rightarrow> seq (config_text ''register_status'' ''Please capture an image first'') (ret self)
            | Some img \<Rightarrow>
                bind (register_user_try env self user_id name email department img)
                  (\<lambda>(raised, self).
                    case raised of
                      None \<Rightarrow> ret self
                    | Some e \<Rightarrow>
                        seq (config_text ''register_status'' (''Error: '' @ exn_str e))
                       (seq (debug_print_exc self (''Registration error details: '' @ exn_str e) e)
                            (ret self)))))"

subsection \<open>\<open>verify_face\<close>\<close>

text \<open>
  \<^verbatim>\<open>
  user_match = None
  for match in search_response.get('FaceMatches', []):
      if match['Face']['ExternalImageId'] == user_id:
          user_match = match
          break
  \<close>
\<close>

definition find_user_match :: "string \<Rightarrow> face_match list \<Rightarrow> face_match option" where
  "find_user_match user_id face_matches =
     find (\<lambda>m. match_ExternalImageId m = user_id) face_matches"

text \<open>The body of the \<open>try\<close> of \<open>verify_face\<close>.\<close>

definition verify_face_try :: "env \<Rightarrow> app \<Rightarrow> string \<Rightarrow> image \<Rightarrow> pyexn option io" where
  "verify_face_try env self user_id img =
     (case cv2_imencode env img of
        Inl e \<Rightarrow> ret (Some e)
      | Inr img_bytes \<Rightarrow>
          seq (debug_print self (''Sending image to AWS Rekognition for verification (size: ''
                                 @ str_nat (length img_bytes) @ '' bytes)''))
         (bind (detect_faces_in_image env self img) (\<lambda>face_details.
            if face_details = [] then
              seq (config_text ''verify_results''
                     ''No face detected in the image. Please try again.'')
                  (ret None)
            else if length face_details > 1 then
              seq (config_text ''verify_results''
                     ''Multiple faces detected. Please use an image with only one face.'')
                  (ret None)
            else
              bind (search_faces_by_image env
                      \<lparr>search_CollectionId = COLLECTION_ID, search_Image = img_bytes,
                       MaxFaces = 10, FaceMatchThreshold = 50\<rparr>) (\<lambda>search_response.
                case search_response of
                  Inl e \<Rightarrow> ret (Some e)
                | Inr face_matches \<Rightarrow>
                    seq (debug_print self (''Search response: '' @ json_dumps_search env face_matches))
                      (case find_user_match user_id face_matches of
                         Some user_match \<Rightarrow>
                           let confidence_decimal = Decimal (str_float env (Similarity user_match));
                               shown = format_float env 2 (float_of_decimal env confidence_decimal)
                           in bind (get_item env USERS_TABLE user_id) (\<lambda>user_response.
                                case user_response of
                                  Inl e \<Rightarrow> ret (Some e)
                                | Inr (Some user) \<Rightarrow>
                                    let name = py_str env (item_get user ''name'' (PStr ''Unknown''))
                                    in if float_ge env (float_of_decimal env confidence_decimal) 80 then
                                         seq (config_text_fg ''verify_results''
                                                ('' VERIFIED: '' @ name @ '' ('' @ user_id @ '')''
                                                 @ [CHR 10] @ ''Confidence: '' @ shown @ ''%'')
                                                ''green'')
                                             (ret None)
                                       else
                                         seq (config_text_fg ''verify_results''
                                                ('' POSSIBLE MATCH: '' @ name @ '' ('' @ user_id @ '')''
                                                 @ [CHR 10] @ ''Confidence: '' @ shown @ ''%'')
                                                ''orange'')
                                             (ret None)
                                | Inr None \<Rightarrow>
                                    seq (config_text_fg ''verify_results''
                                           ('' User data not found for '' @ user_id
                                            @ [CHR 10] @ ''Match confidence: '' @ shown @ ''%'')
                                           ''orange'')
                                        (ret None))
                       | None \<Rightarrow>
                           seq (config_text_fg ''verify_results''
                                  ('' NOT VERIFIED: No match found for '' @ user_id) ''red'')
                             (case face_matches of
                                [] \<Rightarrow> ret None
                              | other_match # rest \<Rightarrow>
                                  let other_id = match_ExternalImageId other_match;
                                      other_confidence_decimal =
                                        Decimal (str_float env (Similarity other_match))
                                  in seq (config_text_fg ''verify_results''
                                            ('' NOT VERIFIED: No match found for '' @ user_id
                                             @ [CHR 10, CHR 10] @ ''Possible match with '' @ other_id
                                             @ '' (''
                                             @ format_float env 2
                                                 (float_of_decimal env other_confidence_decimal)
                                             @ ''%)'')
                                            ''red'')
                                         (ret None)))))))"

definition verify_face :: "env \<Rightarrow> app \<Rightarrow> unit io" where
  "verify_face env self =
     (case verify_captured_image self of
        None \<Rightarrow> emit (ShowInfo ''Info'' ''Please capture or load an image first'')
      | Some img \<Rightarrow>
          let user_id = verify_user_id self in
          if user_id = [] then emit (ShowInfo ''Info'' ''Please select a user to verify against'')
          else
            bind (verify_face_try env self user_id img) (\<lambda>raised.
              case raised of
                None \<Rightarrow> ret ()
              | Some e \<Rightarrow>
                  seq (config_text_fg ''verify_results'' (''Error: '' @ exn_str e) ''red'')
                      (debug_print_exc self (''Verification error: '' @ exn_str e) e)))"

subsection \<open>\<open>process_attendance\<close>\<close>

text \<open>
  \<^verbatim>\<open>
  status = "present"
  if hour >= 9:
      status = "late"
  \<close>
\<close>

definition attendance_status :: "nat \<Rightarrow> string" where
  "attendance_status hour_of_day = (if hour_of_day \<ge> 9 then ''late'' else ''present'')"

text \<open>\<open>s.upper()\<close> on ASCII letters.\<close>

definition upper :: "string \<Rightarrow> string" where
  "upper s =
     map (\<lambda>c. if 97 \<le> (of_char c :: nat) \<and> (of_char c :: nat) \<le> 122
               then char_of ((of_char c :: nat) - 32) else c) s"

text \<open>
  The end of the \<open>try\<close> of \<open>process_attendance\<close>: the result labels, shown once the
  record has been written.
\<close>

definition show_attendance_result :: "env \<Rightarrow> app \<Rightarrow> item \<Rightarrow> string \<Rightarrow> pyval \<Rightarrow> string
    \<Rightarrow> datetime \<Rightarrow> decimal \<Rightarrow> pyexn option io" where
  "show_attendance_result env self user user_id user_name status t_now confidence_decimal =
     seq (emit (NewFrame ''results_frame'' ''status_frame''))
    (seq (emit (NewLabel ''status_frame'' (upper status)))
    (seq (emit (NewLabel ''status_frame'' (''at '' @ strftime_HMS t_now)))
    (seq (emit (NewFrame ''results_frame'' ''info_frame''))
    (seq (emit (NewLabel ''info_frame'' ''Name:''))
    (seq (emit (NewLabel ''info_frame'' (py_str env user_name)))
    (seq (emit (NewLabel ''info_frame'' ''User ID:''))
    (seq (emit (NewLabel ''info_frame'' user_id))
    (seq (emit (NewLabel ''info_frame'' ''Department:''))
      (case item_index user ''department'' of
         Inl e \<Rightarrow> ret (Some e)
       | Inr user_department \<Rightarrow>
           seq (emit (NewLabel ''info_frame'' (py_str env user_department)))
          (seq (emit (NewLabel ''info_frame'' ''Confidence:''))
          (seq (emit (NewLabel ''info_frame''
                        (format_float env 2 (float_of_decimal env confidence_decimal) @ ''%'')))
          (seq (emit (NewLabel ''results_frame'' ''Attendance recorded successfully!''))
          (seq (emit (NewButton ''results_frame'' ''Record Another'' ''reset_attendance''))
          (seq (update_dashboard_stats env self)
               (ret None)))))))))))))))"

text \<open>
  The middle of the \<open>try\<close>: what runs for the best match. The item of the record is built
  before \<open>put_item\<close> is called, so a user item without a name raises before anything is
  written.
\<close>

definition record_attendance :: "env \<Rightarrow> app \<Rightarrow> face_match \<Rightarrow> pyexn option io" where
  "record_attendance env self best_match =
     (let user_id = match_ExternalImageId best_match;
          confidence_decimal = Decimal (str_float env (Similarity best_match))
      in seq (debug_print self
                (''Match found: User ID: '' @ user_id @ '', Confidence: ''
                 @ str_float env (float_of_decimal env confidence_decimal) @ ''%''))
        (bind (get_item env USERS_TABLE user_id) (\<lambda>user_response.
           case user_response of
             Inl e \<Rightarrow> ret (Some e)
           | Inr None \<Rightarrow>
               seq (emit (NewLabel ''results_frame'' ''Error: User data not found'')) (ret None)
           | Inr (Some user) \<Rightarrow>
               bind (now env) (\<lambda>t_now.
                 let status = attendance_status (hour t_now);
                     timestamp = isoformat t_now
                 in case item_index user ''name'' of
                      Inl e \<Rightarrow> ret (Some e)
                    | Inr user_name \<Rightarrow>
                        bind (put_item env ATTENDANCE_TABLE
                                [(''user_id'', PStr user_id), (''name'', user_name),
                                 (''timestamp'', PStr timestamp), (''status'', PStr status),
                                 (''confidence'', PDecimal confidence_decimal)]) (\<lambda>put_response.
                          case put_response of
                            Inl e \<Rightarrow> ret (Some e)
                          | Inr u \<Rightarrow>
                              seq (debug_print self
                                     (''Attendance recorded for '' @ py_str env user_name
                                      @ '' with status: '' @ status))
                                  (show_attendance_result env self user user_id user_name
                                     status t_now confidence_decimal))))))"

text \<open>The body of the \<open>try\<close> of \<open>process_attendance\<close>.\<close>

definition process_attendance_try :: "env \<Rightarrow> app \<Rightarrow> image \<Rightarrow> pyexn option io" where
  "process_attendance_try env self img =
     (case cv2_imencode env img of
        Inl e \<Rightarrow> ret (Some e)
      | Inr img_bytes \<Rightarrow>
          seq (debug_print self (''Sending image to AWS Rekognition for face search (size: ''
                                 @ str_nat (length img_bytes) @ '' bytes)''))
            (let match_threshold = py_int (scale_value (match_threshold_scale self)) in
             bind (detect_faces_in_image env self img) (\<lambda>face_details.
               if face_details = [] then
                 seq (emit (Destroy ''processing_label''))
                (seq (emit (NewLabel ''results_frame'' ''No face detected in the image''))
                (seq (emit (NewLabel ''results_frame'' ''Please capture a clear image with a face.''))
                     (ret None)))
               else
                 bind (search_faces_by_image env
                         \<lparr>search_CollectionId = COLLECTION_ID, search_Image = img_bytes,
                          MaxFaces = 1, FaceMatchThreshold = match_threshold\<rparr>) (\<lambda>search_response.
                   case search_response of
                     Inl e \<Rightarrow> ret (Some e)
                   | Inr face_matches \<Rightarrow>
                       seq (debug_print self
                              (''Search response: '' @ json_dumps_search env face_matches))
                      (seq (emit (Destroy ''processing_label''))
                        (case face_matches of
                           [] \<Rightarrow>
                             seq (emit (NewLabel ''results_frame'' ''No matching face found''))
                            (seq (emit (NewLabel ''results_frame''
                                          ''This person is not registered in the system.''))
                            (seq (emit (NewButton ''results_frame'' ''Register New User''
                                          ''notebook.select(register_tab)''))
                                 (ret None)))
                         | best_match # rest \<Rightarrow> record_attendance env self best_match))))))"

definition process_attendance :: "env \<Rightarrow> app \<Rightarrow> unit io" where
  "process_attendance env self =
     (case attendance_captured_image self of
        None \<Rightarrow> ret ()
      | Some img \<Rightarrow>
          seq (emit (DestroyChildren ''results_frame''))
         (seq (emit (NewLabel ''results_frame'' ''Processing...''))
         (seq (emit Update)
         (bind (process_attendance_try env self img) (\<lambda>raised.
            case raised of
              None \<Rightarrow> ret ()
            | Some e \<Rightarrow>
                seq (emit (Destroy ''processing_label''))
               (seq (emit (NewLabel ''results_frame''
                             (''Error processing attendance: '' @ exn_str e)))
                    (debug_print_exc self (''Attendance processing error: '' @ exn_str e) e)))))))"

subsection \<open>\<open>load_attendance_report\<close>\<close>

text \<open>The row \<open>load_attendance_report\<close> inserts for a record whose confidence displays as \<open>shown\<close>.\<close>

definition attendance_row :: "env \<Rightarrow> item \<Rightarrow> string \<Rightarrow> row" where
  "attendance_row env record shown =
     [item_get record ''user_id'' (PStr []),
      item_get record ''name'' (PStr []),
      format_time env strftime_HMS (item_get record ''timestamp'' (PStr [])),
      item_get record ''status'' (PStr []),
      PStr shown]"

text \<open>
  The loop that inserts the rows: a record whose confidence cannot be formatted raises,
  and the rows inserted before it stay.
\<close>

fun insert_attendance_rows :: "env \<Rightarrow> item list \<Rightarrow> row list \<Rightarrow> pyexn option \<times> row list" where
  "insert_attendance_rows env [] rows = (None, rows)"
| "insert_attendance_rows env (record # records) rows =
     (case confidence_display env record of
        Inl e \<Rightarrow> (Some e, rows)
      | Inr shown \<Rightarrow>
          insert_attendance_rows env records (rows @ [attendance_row env record shown]))"

text \<open>The number of different users with a record of the given status.\<close>

definition count_users_with_status :: "string \<Rightarrow> item list \<Rightarrow> int" where
  "count_users_with_status status records =
     int (length (remdups (map (\<lambda>record. item_get record ''user_id'' PNone)
                    (filter (\<lambda>record. item_get record ''status'' PNone = PStr status) records))))"

definition load_attendance_report_try :: "env \<Rightarrow> app \<Rightarrow> (pyexn option \<times> app) io" where
  "load_attendance_report_try env self =
     (let date_str = report_date_var self in
      case strptime_Ymd date_str of
        None \<Rightarrow>
          seq (emit (ShowError ''Error'' ''Invalid date format. Please use YYYY-MM-DD''))
              (ret (None, self))
      | Some parsed \<Rightarrow>
          bind (scan env ATTENDANCE_TABLE (BeginsWith ''timestamp'' date_str)) (\<lambda>response.
            case response of
              Inl e \<Rightarrow> ret (Some e, self)
            | Inr records \<Rightarrow>
                bind (scan env USERS_TABLE NoFilter) (\<lambda>users_response.
                  case users_response of
                    Inl e \<Rightarrow> ret (Some e, self)
                  | Inr all_users \<Rightarrow>
                      let present_count = count_users_with_status ''present'' records;
                          late_count = count_users_with_status ''late'' records;
                          total_users = int (length all_users);
                          absent_count = total_users - present_count - late_count
                      in seq (config_text ''report_present_card'' (str_int present_count))
                        (seq (config_text ''report_late_card'' (str_int late_count))
                        (seq (config_text ''report_absent_card'' (str_int absent_count))
                          (case insert_attendance_rows env records (attendance_table self) of
                             (raised, rows) \<Rightarrow> ret (raised, self\<lparr>attendance_table := rows\<rparr>)))))))"

definition load_attendance_report :: "env \<Rightarrow> app \<Rightarrow> app io" where
  "load_attendance_report env self =
     (let self = self\<lparr>attendance_table := []\<rparr> in
      bind (load_attendance_report_try env self) (\<lambda>(raised, self).
        case raised of
          None \<Rightarrow> ret self
        | Some e \<Rightarrow>
            seq (emit (ShowError ''Error'' (''Failed to load attendance report: '' @ exn_str e)))
           (seq (debug_print_exc self (''Error loading attendance report: '' @ exn_str e) e)
                (ret self))))"

subsection \<open>\<open>export_attendance_report\<close>\<close>

definition csv_header :: string where
  "csv_header = ''User ID,Name,Time,Status,Confidence''"

text \<open>
  \<^verbatim>\<open>
  csv_content += f"{record.get('user_id', '')},{record.get('name', '')},{formatted_time},"
  csv_content += f"{record.get('status', '')},{confidence_display}\n"
  \<close>
\<close>

definition csv_line :: "env \<Rightarrow> item \<Rightarrow> string \<Rightarrow> string" where
  "csv_line env record shown =
     py_str env (item_get record ''user_id'' (PStr [])) @ '','' @
     py_str env (item_get record ''name'' (PStr [])) @ '','' @
     py_str env (format_time env strftime_HMS (item_get record ''timestamp'' (PStr []))) @ '','' @
     py_str env (item_get record ''status'' (PStr [])) @ '','' @ shown @ [CHR 10]"

text \<open>The loop over the records: the text it adds, or the exception of the first record that raises.\<close>

fun csv_lines :: "env \<Rightarrow> item list \<Rightarrow> pyexn + string" where
  "csv_lines env [] = Inr []"
| "csv_lines env (record # records) =
     (case confidence_display env record of
        Inl e \<Rightarrow> Inl e
      | Inr shown \<Rightarrow>
          (case csv_lines env records of
             Inl e \<Rightarrow> Inl e
           | Inr rest \<Rightarrow> Inr (csv_line env record shown @ rest)))"

definition export_attendance_report_try :: "env \<Rightarrow> app \<Rightarrow> pyexn option io" where
  "export_attendance_report_try env self =
     (let date_str = report_date_var self in
      bind (scan env ATTENDANCE_TABLE (BeginsWith ''timestamp'' date_str)) (\<lambda>response.
        case response of
          Inl e \<Rightarrow> ret (Some e)
        | Inr records \<Rightarrow>
            if records = [] then
              seq (emit (ShowInfo ''Info'' ''No records to export'')) (ret None)
            else
              bind (asksaveasfilename env (''attendance_'' @ date_str @ ''.csv'')) (\<lambda>file_path.
                if file_path = [] then ret None
                else
                  (case csv_lines env records of
                     Inl e \<Rightarrow> ret (Some e)
                   | Inr lines \<Rightarrow>
                       let csv_content = csv_header @ [CHR 10] @ lines in
                       bind (write_file env file_path csv_content) (\<lambda>written.
                         case written of
                           Inl e \<Rightarrow> ret (Some e)
                         | Inr u \<Rightarrow>
                             seq (emit (ShowInfo ''Success'' (''Report exported to '' @ file_path)))
                                 (ret None))))))"

definition export_attendance_report :: "env \<Rightarrow> app \<Rightarrow> unit io" where
  "export_attendance_report env self =
     bind (export_attendance_report_try env self) (\<lambda>raised.
       case raised of
         None \<Rightarrow> ret ()
       | Some e \<Rightarrow>
           seq (emit (ShowError ''Error'' (''Failed to export report: '' @ exn_str e)))
               (debug_print_exc self (''Error exporting report: '' @ exn_str e) e))"

subsection \<open>\<open>initialize_aws_resources\<close>\<close>

definition users_table_spec :: table_spec where
  "users_table_spec =
     \<lparr>TableName = USERS_TABLE,
      KeySchema = [(''user_id'', ''HASH'')],
      AttributeDefinitions = [(''user_id'', ''S'')],
      ReadCapacityUnits = 5, WriteCapacityUnits = 5\<rparr>"

definition attendance_table_spec :: table_spec where
  "attendance_table_spec =
     \<lparr>TableName = ATTENDANCE_TABLE,
      KeySchema = [(''user_id'', ''HASH''), (''timestamp'', ''RANGE'')],
      AttributeDefinitions = [(''user_id'', ''S''), (''timestamp'', ''S'')],
      ReadCapacityUnits = 5, WriteCapacityUnits = 5\<rparr>"

text \<open>
  \<^verbatim>\<open>
  table = dynamodb.create_table(...)
  table.meta.client.get_waiter('table_exists').wait(TableName=...)
  print(f"Created {...} table")
  \<close>
  Neither call is inside a \<open>try\<close>: an exception leaves \<open>initialize_aws_resources\<close>.
\<close>

definition create_and_wait :: "env \<Rightarrow> table_spec \<Rightarrow> pyexn option io" where
  "create_and_wait env spec =
     bind (create_table env spec) (\<lambda>created.
       case created of
         Inl e \<Rightarrow> ret (Some e)
       | Inr u \<Rightarrow>
           bind (wait_table_exists env (TableName spec)) (\<lambda>waited.
             case waited of
               Inl e \<Rightarrow> ret (Some e)
             | Inr u \<Rightarrow>
                 seq (emit (Print (''Created '' @ TableName spec @ '' table''))) (ret None)))"

text \<open>The body of the \<open>try\<close> around the collection.\<close>

definition ensure_collection :: "env \<Rightarrow> pyexn option io" where
  "ensure_collection env =
     bind (list_collections env) (\<lambda>collections.
       case collections of
         Inl e \<Rightarrow> ret (Some e)
       | Inr collection_ids \<Rightarrow>
           if COLLECTION_ID \<notin> set collection_ids then
             bind (create_collection env COLLECTION_ID) (\<lambda>created.
               case created of
                 Inl e \<Rightarrow> ret (Some e)
               | Inr u \<Rightarrow>
                   seq (emit (Print (''Created '' @ COLLECTION_ID @ '' collection''))) (ret None))
           else ret None)"

text \<open>The result is \<open>Inl e\<close> when the function is left by the exception \<open>e\<close>.\<close>

definition initialize_aws_resources :: "env \<Rightarrow> (pyexn + bool) io" where
  "initialize_aws_resources env =
     bind (tables_all env) (\<lambda>tables.
       case tables of
         Inl e \<Rightarrow> ret (Inl e)
       | Inr table_names \<Rightarrow>
           bind (if USERS_TABLE \<notin> set table_names
                 then create_and_wait env users_table_spec else ret None) (\<lambda>raised.
             case raised of
               Some e \<Rightarrow> ret (Inl e)
             | None \<Rightarrow>
                 bind (if ATTENDANCE_TABLE \<notin> set table_names
                       then create_and_wait env attendance_table_spec else ret None) (\<lambda>raised.
                   case raised of
                     Some e \<Rightarrow> ret (Inl e)
                   | None \<Rightarrow>
                       bind (ensure_collection env) (\<lambda>raised.
                         case raised of
                           None \<Rightarrow> ret (Inr True)
                         | Some e \<Rightarrow>
                             seq (emit (Print (''Error creating collection: '' @ exn_str e)))
                            (seq (emit (ShowError ''Error''
                                          (''Failed to initialize AWS resources: '' @ exn_str e)))
                                 (ret (Inr False)))))))"

subsection \<open>The sliders\<close>

text \<open>
  \<^verbatim>\<open>
  self.quality_threshold = ttk.Scale(form_frame, from_=70, to=99, orient=tk.HORIZONTAL)
  self.quality_threshold.set(80)
  self.match_threshold = ttk.Scale(threshold_frame, from_=50, to=99, orient=tk.HORIZONTAL)
  self.match_threshold.set(70)
  \<close>
  The operator moves a slider between its two bounds.
\<close>

definition init_register_tab :: "app \<Rightarrow> app" where
  "init_register_tab self =
     self\<lparr>quality_threshold_scale := \<lparr>scale_from = 70, scale_to = 99, scale_value = 80\<rparr>,
          register_captured_image := None\<rparr>"

definition init_attendance_tab :: "app \<Rightarrow> app" where
  "init_attendance_tab self =
     self\<lparr>match_threshold_scale := \<lparr>scale_from = 50, scale_to = 99, scale_value = 70\<rparr>,
          attendance_captured_image := None\<rparr>"

definition scale_in_range :: "scale \<Rightarrow> bool" where
  "scale_in_range s = (scale_from s \<le> scale_value s \<and> scale_value s \<le> scale_to s)"

section \<open>Properties of \<open>float_to_decimal\<close>\<close>

lemma float_free_float_to_decimal:
  "float_free (float_to_decimal str v) = floats_reachable v"
proof (induction v)
  case (PList xs)
  then show ?case by (simp add: list_all_iff)
next
  case (PDict kvs)
  then show ?case by (fastforce simp: list_all_iff)
qed simp_all

lemma float_to_decimal_other: "other_type obj \<Longrightarrow> float_to_decimal str obj = obj"
  by (cases obj) simp_all

text \<open>
  C1, as the claim states its conclusion, fails: a float inside a tuple is handed back
  unchanged (the tuple \<open>(1.5,)\<close>, whose float has the bit pattern \<open>0x3FF8000000000000\<close>).
\<close>

theorem float_to_decimal_tuple_keeps_float:
  "float_to_decimal (\<lambda>x. ''1.5'') (PTuple [PFloat (Float64 0x3FF8000000000000)])
     = PTuple [PFloat (Float64 0x3FF8000000000000)]
   \<and> \<not> float_free (float_to_decimal (\<lambda>x. ''1.5'') (PTuple [PFloat (Float64 0x3FF8000000000000)]))"
  by simp

text \<open>
  C1 (amended): \<open>float_to_decimal\<close> returns \<open>Decimal(str(x))\<close> for a float \<open>x\<close>; for a dict
  a dict with the same keys in the same order whose values are the recursive conversions;
  for a list the list of the recursive conversions, of the same length and order; and
  every other value unchanged. Its output contains no float exactly when every float of
  the input is reached through list elements and dict values only (none sits in a tuple,
  a set or a dict key).
\<close>

theorem float_to_decimal_spec:
  "float_to_decimal str (PFloat x) = PDecimal (Decimal (str x))
   \<and> float_to_decimal str (PDict kvs) = PDict (map (\<lambda>(k, v). (k, float_to_decimal str v)) kvs)
   \<and> map fst (map (\<lambda>(k, v). (k, float_to_decimal str v)) kvs) = map fst kvs
   \<and> float_to_decimal str (PList xs) = PList (map (float_to_decimal str) xs)
   \<and> length (map (float_to_decimal str) xs) = length xs
   \<and> (other_type obj \<longrightarrow> float_to_decimal str obj = obj)
   \<and> (float_free (float_to_decimal str v) \<longleftrightarrow> floats_reachable v)"
proof (intro conjI)
  show "map fst (map (\<lambda>(k, v). (k, float_to_decimal str v)) kvs) = map fst kvs"
    by (induction kvs) auto
  show "other_type obj \<longrightarrow> float_to_decimal str obj = obj"
    by (simp add: float_to_decimal_other)
  show "float_free (float_to_decimal str v) \<longleftrightarrow> floats_reachable v"
    by (rule float_free_float_to_decimal)
qed simp_all

theorem float_to_decimal_spec_witness:
  "other_type (PTuple [PInt 1])
   \<and> float_to_decimal (\<lambda>x. ''1.5'') (PTuple [PInt 1]) = PTuple [PInt 1]
   \<and> floats_reachable (PDict [(PStr ''Confidence'', PList [PFloat (Float64 0x3FF8000000000000)])])
   \<and> float_free (float_to_decimal (\<lambda>x. ''1.5'')
        (PDict [(PStr ''Confidence'', PList [PFloat (Float64 0x3FF8000000000000)])]))"
  using float_to_decimal_spec [of "\<lambda>x. ''1.5''" "Float64 0" "[]" "[]" "PTuple [PInt 1]"
      "PDict [(PStr ''Confidence'', PList [PFloat (Float64 0x3FF8000000000000)])]"]
  by simp

end
